theory Spec2Isabelle
  imports Complex_Main
begin

unbundle bit_operations_syntax

section \<open>Hotkey identifiers, signals and effects\<close>

text \<open>
  The hotkey enumeration of \<^verbatim>\<open>Core/HotkeyManager.h\<close>, restricted to the identifiers that
  \<^verbatim>\<open>HotkeyScheduler.cpp\<close> queries, grouped as the source groups them by its comments.
  The per-slot identifiers \<^verbatim>\<open>HK_LOAD_STATE_SLOT_1 + i\<close> carry the offset \<open>i\<close>.
\<close>

datatype general_hotkey =
  HK_OPEN | HK_EJECT_DISC | HK_CHANGE_DISC | HK_FULLSCREEN | HK_REFRESH_LIST
| HK_PLAY_PAUSE | HK_STOP | HK_RESET | HK_SCREENSHOT | HK_EXIT
| HK_START_RECORDING | HK_EXPORT_RECORDING | HK_READ_ONLY_MODE

datatype frame_advance_hotkey =
  HK_FRAME_ADVANCE | HK_FRAME_ADVANCE_INCREASE_SPEED | HK_FRAME_ADVANCE_DECREASE_SPEED
| HK_FRAME_ADVANCE_RESET_SPEED

datatype wii_hotkey =
  HK_TRIGGER_SYNC_BUTTON | HK_WIIMOTE1_CONNECT | HK_WIIMOTE2_CONNECT | HK_WIIMOTE3_CONNECT
| HK_WIIMOTE4_CONNECT | HK_BALANCEBOARD_CONNECT

datatype debugging_hotkey =
  HK_STEP | HK_STEP_OVER | HK_STEP_OUT | HK_SKIP | HK_SHOW_PC | HK_SET_PC | HK_BP_TOGGLE
| HK_BP_ADD

datatype volume_hotkey = HK_VOLUME_DOWN | HK_VOLUME_UP | HK_VOLUME_TOGGLE_MUTE

datatype graphics_hotkey =
  HK_INCREASE_IR | HK_DECREASE_IR | HK_TOGGLE_CROP | HK_TOGGLE_AR | HK_TOGGLE_EFBCOPIES
| HK_TOGGLE_XFBCOPIES | HK_TOGGLE_IMMEDIATE_XFB | HK_TOGGLE_FOG | HK_TOGGLE_DUMPTEXTURES
| HK_TOGGLE_TEXTURES | HK_TOGGLE_THROTTLE | HK_DECREASE_EMULATION_SPEED
| HK_INCREASE_EMULATION_SPEED

datatype stereo_hotkey =
  HK_TOGGLE_STEREO_SBS | HK_TOGGLE_STEREO_TAB | HK_TOGGLE_STEREO_ANAGLYPH
| HK_TOGGLE_STEREO_3DVISION | HK_DECREASE_DEPTH | HK_INCREASE_DEPTH
| HK_DECREASE_CONVERGENCE | HK_INCREASE_CONVERGENCE

datatype freelook_hotkey =
  HK_FREELOOK_DECREASE_SPEED | HK_FREELOOK_INCREASE_SPEED | HK_FREELOOK_RESET_SPEED
| HK_FREELOOK_UP | HK_FREELOOK_DOWN | HK_FREELOOK_LEFT | HK_FREELOOK_RIGHT
| HK_FREELOOK_ZOOM_IN | HK_FREELOOK_ZOOM_OUT | HK_FREELOOK_RESET

datatype state_hotkey =
  HK_SAVE_STATE_SLOT_SELECTED | HK_LOAD_STATE_SLOT_SELECTED
| HK_LOAD_STATE_SLOT_1_plus nat | HK_SAVE_STATE_SLOT_1_plus nat
| HK_LOAD_LAST_STATE_1_plus nat | HK_SELECT_STATE_SLOT_1_plus nat
| HK_SAVE_FIRST_STATE | HK_UNDO_LOAD_STATE | HK_UNDO_SAVE_STATE

datatype hotkey =
  General general_hotkey
| FrameAdvance frame_advance_hotkey
| Wii wii_hotkey
| Debugging debugging_hotkey
| Volume volume_hotkey
| Graphics graphics_hotkey
| Stereo stereo_hotkey
| Freelook freelook_hotkey
| SaveState state_hotkey

text \<open>
  The Qt signals of the scheduler: every \<^verbatim>\<open>emit X(...)\<close> of the source is one value.
  \<open>SetPC\<close> is the set-pc command of the command sink; the source file has no
  \<^verbatim>\<open>emit SetPC()\<close>.
\<close>

datatype debug_signal =
  Step | StepOver | StepOut | Skip | ShowPC | SetPC | ToggleBreakpoint | AddBreakpoint

datatype signal =
  Open | EjectDisc | ChangeDisc | FullScreenHotkey | RefreshGameListHotkey
| TogglePauseHotkey | StopHotkey | ResetHotkey | ScreenShotHotkey | ExitHotkey
| StartRecording | ExportRecording | ToggleReadOnlyMode
| ConnectWiiRemote int
| StateSaveSlotHotkey | StateLoadSlotHotkey
| StateLoadSlot nat | StateSaveSlot nat | StateLoadLastSaved nat | SetStateSlotHotkey nat
| StateSaveOldest | StateLoadUndo | StateSaveUndo
| Debug debug_signal

datatype OSDMessage =
  VolumeChanged | IRChanged | ARToggled | EFBCopyToggled | XFBChanged | FogToggled
| SpeedChanged

text \<open>
  Everything one tick does to the world outside the scheduler, in the order it does it:
  emitted signals and the direct calls into other subsystems.
\<close>

datatype effect =
  Emit signal
| DoFrameStep
| SleepCurrentThread nat
| UpdateInput
| GetStatus
| UpdateSyncButtonState bool
| ShowOSDMessage OSDMessage
| DecreaseVolume nat
| IncreaseVolume nat
| ToggleMuteVolume
| SetIsThrottlerTempDisabled bool
| TranslateView "real list"
| ResetView

datatype StereoMode = Off | SBS | TAB | Anaglyph | Nvidia3DVision

text \<open>
  \<^verbatim>\<open>Core::State\<close>: the source names \<open>Uninitialized\<close>, \<open>Paused\<close> and \<open>Stopping\<close>;
  \<open>Running\<close> stands for the remaining state of the enumeration.
\<close>

datatype CoreState = Uninitialized | Paused | Running | Stopping

section \<open>State and environment\<close>

text \<open>
  The state the loop reads and writes: the function-local statics of
  \<^verbatim>\<open>HandleFrameskipHotkeys\<close> and \<^verbatim>\<open>Run\<close>, the configuration values reached through
  \<^verbatim>\<open>Config::Get\<close>/\<^verbatim>\<open>Config::SetCurrent\<close> and \<^verbatim>\<open>SConfig\<close>, and the trace of effects.
  C \<^verbatim>\<open>int\<close> values are unbounded integers here (the properties below concern values
  far from the 32-bit bounds); \<^verbatim>\<open>float\<close>/\<^verbatim>\<open>double\<close> values are the real numbers
  they denote, so rounding is not part of the model.
\<close>

record sched =
  frame_step_count :: int
  frame_step_delay :: int
  frame_step_delay_count :: int
  frame_step_hold :: bool
  fl_speed :: real
  m_EmulationSpeed :: real
  GFX_EFB_SCALE :: int
  GFX_CROP :: bool
  GFX_ASPECT_RATIO :: int
  GFX_HACK_SKIP_EFB_COPY_TO_RAM :: bool
  GFX_HACK_SKIP_XFB_COPY_TO_RAM :: bool
  GFX_HACK_IMMEDIATE_XFB :: bool
  GFX_DISABLE_FOG :: bool
  GFX_DUMP_TEXTURES :: bool
  GFX_HIRES_TEXTURES :: bool
  GFX_STEREO_MODE :: StereoMode
  GFX_ENHANCE_POST_SHADER :: string
  GFX_STEREO_DEPTH :: int
  GFX_STEREO_CONVERGENCE :: int
  effects :: "effect list"

text \<open>
  What one iteration of the loop observes of its collaborators: the stop flag at the loop
  head, the hotkey manager (\<^verbatim>\<open>IsEnabled\<close>, \<^verbatim>\<open>IsPressed(id, held)\<close>), the core
  (\<^verbatim>\<open>GetState\<close>, \<^verbatim>\<open>IsRunningAndStarted\<close>), the \<^verbatim>\<open>SConfig\<close> flags, whether the
  Bluetooth passthrough device and the renderer exist, and the constant
  \<^verbatim>\<open>EFB_SCALE_AUTO_INTEGRAL\<close> of \<^verbatim>\<open>VideoConfig.h\<close>.
\<close>

record host =
  stop_requested :: bool
  IsEnabled :: bool
  IsPressed :: "hotkey \<Rightarrow> bool \<Rightarrow> bool"
  GetState :: CoreState
  IsRunningAndStarted :: bool
  m_bt_passthrough_enabled :: bool
  bt_device_present :: bool
  bEnableDebugging :: bool
  bWii :: bool
  g_renderer :: bool
  EFB_SCALE_AUTO_INTEGRAL :: int

definition DUBOIS_ALGORITHM_SHADER :: string where
  "DUBOIS_ALGORITHM_SHADER = ''dubois''"

definition NUM_STATES :: nat where
  \<comment> \<open>Modelled from the spec: \<^verbatim>\<open>State::NUM_STATES\<close> is declared in \<^verbatim>\<open>Core/State.h\<close>; N = 10.\<close>
  "NUM_STATES = 10"

definition MAX_FRAME_SKIP_DELAY :: int where
  "MAX_FRAME_SKIP_DELAY = 60"

definition FRAME_STEP_DELAY :: int where
  "FRAME_STEP_DELAY = 30"

section \<open>Sequencing\<close>

text \<open>
  \<^verbatim>\<open>IsHotkey(id, held)\<close> forwards to \<^verbatim>\<open>HotkeyManagerEmu::IsPressed\<close>, which is not part
  of the source file: its answer is taken from the observation of the iteration, one answer
  per hotkey and \<open>held\<close> flag. The one hotkey the body asks about twice
  (\<^verbatim>\<open>HK_TOGGLE_STEREO_SBS\<close>, lines 351 and 360) gets the same answer both times.
\<close>

definition IsHotkey :: "host \<Rightarrow> hotkey \<Rightarrow> bool \<Rightarrow> bool" where
  "IsHotkey h hk held = IsPressed h hk held"

definition eff :: "effect \<Rightarrow> sched \<Rightarrow> sched" where
  "eff e s = s\<lparr>effects := effects s @ [e]\<rparr>"

definition emit :: "signal \<Rightarrow> sched \<Rightarrow> sched" where
  "emit c = eff (Emit c)"

definition guard :: "bool \<Rightarrow> (sched \<Rightarrow> sched) \<Rightarrow> sched \<Rightarrow> sched" where
  "guard b f s = (if b then f s else s)"

text \<open>\<open>seq [f, g, h]\<close> runs \<open>f\<close>, then \<open>g\<close>, then \<open>h\<close>.\<close>

fun seq :: "(sched \<Rightarrow> sched) list \<Rightarrow> sched \<Rightarrow> sched" where
  "seq [] s = s"
| "seq (f # fs) s = seq fs (f s)"

definition show_msg :: "host \<Rightarrow> OSDMessage \<Rightarrow> sched \<Rightarrow> sched" where
  "show_msg h message = guard (g_renderer h) (eff (ShowOSDMessage message))"

section \<open>HandleFrameskipHotkeys\<close>

definition frame_advance_held :: "sched \<Rightarrow> sched" where
  "frame_advance_held s0 =
    (let s = (if frame_step_delay_count s0 < frame_step_delay s0 \<and> frame_step_hold s0
              then s0\<lparr>frame_step_delay_count := frame_step_delay_count s0 + 1\<rparr> else s0);
         s = (if (frame_step_count s = 0 \<or> frame_step_count s = FRAME_STEP_DELAY)
                 \<and> \<not> frame_step_hold s
              then (eff DoFrameStep s)\<lparr>frame_step_hold := True\<rparr> else s);
         s = (if frame_step_count s < FRAME_STEP_DELAY
              then s\<lparr>frame_step_count := frame_step_count s + 1, frame_step_hold := False\<rparr>
              else s);
         s = (if frame_step_count s = FRAME_STEP_DELAY \<and> frame_step_hold s
                 \<and> frame_step_delay_count s \<ge> frame_step_delay s
              then s\<lparr>frame_step_hold := False, frame_step_delay_count := 0\<rparr> else s)
     in s)"

definition HandleFrameskipHotkeys :: "host \<Rightarrow> sched \<Rightarrow> sched" where
  "HandleFrameskipHotkeys h s =
    (if IsHotkey h (FrameAdvance HK_FRAME_ADVANCE_INCREASE_SPEED) False then
       s\<lparr>frame_step_delay := min (frame_step_delay s + 1) MAX_FRAME_SKIP_DELAY\<rparr>
     else if IsHotkey h (FrameAdvance HK_FRAME_ADVANCE_DECREASE_SPEED) False then
       s\<lparr>frame_step_delay := max (frame_step_delay s - 1) 0\<rparr>
     else if IsHotkey h (FrameAdvance HK_FRAME_ADVANCE_RESET_SPEED) False then
       s\<lparr>frame_step_delay := 1\<rparr>
     else if IsHotkey h (FrameAdvance HK_FRAME_ADVANCE) True then
       frame_advance_held s
     else if frame_step_count s > 0 then
       s\<lparr>frame_step_count := 0, frame_step_hold := False, frame_step_delay_count := 0\<rparr>
     else s)"

section \<open>CheckDebuggingHotkeys\<close>

definition CheckDebuggingHotkeys :: "host \<Rightarrow> sched \<Rightarrow> sched" where
  "CheckDebuggingHotkeys h = seq
    [ guard (IsHotkey h (Debugging HK_STEP) False) (emit (Debug Step)),
      guard (IsHotkey h (Debugging HK_STEP_OVER) False) (emit (Debug StepOver)),
      guard (IsHotkey h (Debugging HK_STEP_OUT) False) (emit (Debug StepOut)),
      guard (IsHotkey h (Debugging HK_SKIP) False) (emit (Debug Skip)),
      guard (IsHotkey h (Debugging HK_SHOW_PC) False) (emit (Debug ShowPC)),
      guard (IsHotkey h (Debugging HK_SET_PC) False) (emit (Debug Skip)),
      guard (IsHotkey h (Debugging HK_BP_TOGGLE) False) (emit (Debug ToggleBreakpoint)),
      guard (IsHotkey h (Debugging HK_BP_ADD) False) (emit (Debug AddBreakpoint)) ]"

section \<open>The body of the loop in HotkeyScheduler::Run\<close>

subsection \<open>Inside the \<^verbatim>\<open>Core::GetState() != Core::State::Stopping\<close> block\<close>

definition general_hotkeys :: "host \<Rightarrow> sched \<Rightarrow> sched" where
  "general_hotkeys h = seq
    [ guard (IsHotkey h (General HK_OPEN) False) (emit Open),
      guard (IsHotkey h (General HK_EJECT_DISC) False) (emit EjectDisc),
      guard (IsHotkey h (General HK_CHANGE_DISC) False) (emit ChangeDisc),
      guard (IsHotkey h (General HK_FULLSCREEN) False)
        (seq [emit FullScreenHotkey, eff (SleepCurrentThread 100)]),
      guard (IsHotkey h (General HK_REFRESH_LIST) False) (emit RefreshGameListHotkey),
      guard (IsHotkey h (General HK_PLAY_PAUSE) False) (emit TogglePauseHotkey),
      guard (IsHotkey h (General HK_STOP) False) (emit StopHotkey),
      guard (IsHotkey h (General HK_RESET) False) (emit ResetHotkey) ]"

definition recording_hotkeys :: "host \<Rightarrow> sched \<Rightarrow> sched" where
  "recording_hotkeys h = seq
    [ guard (IsHotkey h (General HK_SCREENSHOT) False) (emit ScreenShotHotkey),
      guard (IsHotkey h (General HK_EXIT) False) (emit ExitHotkey),
      guard (IsHotkey h (General HK_START_RECORDING) False) (emit StartRecording),
      guard (IsHotkey h (General HK_EXPORT_RECORDING) False) (emit ExportRecording),
      guard (IsHotkey h (General HK_READ_ONLY_MODE) False) (emit ToggleReadOnlyMode) ]"

definition sync_button :: "host \<Rightarrow> sched \<Rightarrow> sched" where
  "sync_button h =
     guard (m_bt_passthrough_enabled h)
       (guard (bt_device_present h)
          (eff (UpdateSyncButtonState (IsHotkey h (Wii HK_TRIGGER_SYNC_BUTTON) True))))"

definition wiimote_id :: "host \<Rightarrow> int" where
  "wiimote_id h =
    (let wiimote_id = - 1;
         wiimote_id = (if IsHotkey h (Wii HK_WIIMOTE1_CONNECT) False then 0 else wiimote_id);
         wiimote_id = (if IsHotkey h (Wii HK_WIIMOTE2_CONNECT) False then 1 else wiimote_id);
         wiimote_id = (if IsHotkey h (Wii HK_WIIMOTE3_CONNECT) False then 2 else wiimote_id);
         wiimote_id = (if IsHotkey h (Wii HK_WIIMOTE4_CONNECT) False then 3 else wiimote_id);
         wiimote_id = (if IsHotkey h (Wii HK_BALANCEBOARD_CONNECT) False then 4 else wiimote_id)
     in wiimote_id)"

definition wiimote_connect :: "host \<Rightarrow> sched \<Rightarrow> sched" where
  "wiimote_connect h =
     guard (bWii h) (guard (wiimote_id h > - 1) (emit (ConnectWiiRemote (wiimote_id h))))"

definition volume_hotkeys :: "host \<Rightarrow> sched \<Rightarrow> sched" where
  "volume_hotkeys h = seq
    [ guard (IsHotkey h (Volume HK_VOLUME_DOWN) False)
        (seq [show_msg h VolumeChanged, eff (DecreaseVolume 3)]),
      guard (IsHotkey h (Volume HK_VOLUME_UP) False)
        (seq [show_msg h VolumeChanged, eff (IncreaseVolume 3)]),
      guard (IsHotkey h (Volume HK_VOLUME_TOGGLE_MUTE) False)
        (seq [show_msg h VolumeChanged, eff ToggleMuteVolume]) ]"

definition internal_resolution :: "host \<Rightarrow> sched \<Rightarrow> sched" where
  "internal_resolution h s0 =
    (let efb_scale = GFX_EFB_SCALE s0 in seq
      [ guard (IsHotkey h (Graphics HK_INCREASE_IR) False)
          (seq [show_msg h IRChanged, (\<lambda>s. s\<lparr>GFX_EFB_SCALE := efb_scale + 1\<rparr>)]),
        guard (IsHotkey h (Graphics HK_DECREASE_IR) False)
          (seq [show_msg h IRChanged,
                guard (efb_scale > EFB_SCALE_AUTO_INTEGRAL h)
                  (\<lambda>s. s\<lparr>GFX_EFB_SCALE := efb_scale - 1\<rparr>)]) ] s0)"

definition graphics_toggles :: "host \<Rightarrow> sched \<Rightarrow> sched" where
  "graphics_toggles h = seq
    [ guard (IsHotkey h (Graphics HK_TOGGLE_CROP) False)
        (\<lambda>s. s\<lparr>GFX_CROP := \<not> GFX_CROP s\<rparr>),
      guard (IsHotkey h (Graphics HK_TOGGLE_AR) False)
        (seq [show_msg h ARToggled,
              (\<lambda>s. let aspect_ratio = (GFX_ASPECT_RATIO s + 1) AND 3
                    in s\<lparr>GFX_ASPECT_RATIO := aspect_ratio\<rparr>)]),
      guard (IsHotkey h (Graphics HK_TOGGLE_EFBCOPIES) False)
        (seq [show_msg h EFBCopyToggled,
              (\<lambda>s. s\<lparr>GFX_HACK_SKIP_EFB_COPY_TO_RAM := \<not> GFX_HACK_SKIP_EFB_COPY_TO_RAM s\<rparr>)]),
      guard (IsHotkey h (Graphics HK_TOGGLE_XFBCOPIES) False)
        (seq [show_msg h XFBChanged,
              (\<lambda>s. s\<lparr>GFX_HACK_SKIP_XFB_COPY_TO_RAM := \<not> GFX_HACK_SKIP_XFB_COPY_TO_RAM s\<rparr>)]),
      guard (IsHotkey h (Graphics HK_TOGGLE_IMMEDIATE_XFB) False)
        (seq [show_msg h XFBChanged,
              (\<lambda>s. s\<lparr>GFX_HACK_IMMEDIATE_XFB := \<not> GFX_HACK_IMMEDIATE_XFB s\<rparr>)]),
      guard (IsHotkey h (Graphics HK_TOGGLE_FOG) False)
        (seq [show_msg h FogToggled,
              (\<lambda>s. s\<lparr>GFX_DISABLE_FOG := \<not> GFX_DISABLE_FOG s\<rparr>)]),
      guard (IsHotkey h (Graphics HK_TOGGLE_DUMPTEXTURES) False)
        (\<lambda>s. s\<lparr>GFX_DUMP_TEXTURES := \<not> GFX_DUMP_TEXTURES s\<rparr>),
      guard (IsHotkey h (Graphics HK_TOGGLE_TEXTURES) False)
        (\<lambda>s. s\<lparr>GFX_HIRES_TEXTURES := \<not> GFX_HIRES_TEXTURES s\<rparr>),
      eff (SetIsThrottlerTempDisabled (IsHotkey h (Graphics HK_TOGGLE_THROTTLE) True)) ]"

text \<open>
  Lines 325 to 341. \<^verbatim>\<open>auto speed = m_EmulationSpeed - 0.1\<close>, then the conditional
  expression that replaces it by 1.0, then the store.
\<close>

definition decrease_emulation_speed :: "host \<Rightarrow> sched \<Rightarrow> sched" where
  "decrease_emulation_speed h =
     seq [show_msg h SpeedChanged,
          (\<lambda>s. let speed = m_EmulationSpeed s - 0.1;
                    speed = (if speed \<le> 0 \<or> (speed \<ge> 0.95 \<and> speed \<le> 1.05) then 1.0 else speed)
                in s\<lparr>m_EmulationSpeed := speed\<rparr>)]"

definition increase_emulation_speed :: "host \<Rightarrow> sched \<Rightarrow> sched" where
  "increase_emulation_speed h =
     seq [show_msg h SpeedChanged,
          (\<lambda>s. let speed = m_EmulationSpeed s + 0.1;
                    speed = (if speed \<ge> 0.95 \<and> speed \<le> 1.05 then 1.0 else speed)
                in s\<lparr>m_EmulationSpeed := speed\<rparr>)]"

definition emulation_speed :: "host \<Rightarrow> sched \<Rightarrow> sched" where
  "emulation_speed h = seq
    [ guard (IsHotkey h (Graphics HK_DECREASE_EMULATION_SPEED) False)
        (decrease_emulation_speed h),
      guard (IsHotkey h (Graphics HK_INCREASE_EMULATION_SPEED) False)
        (increase_emulation_speed h) ]"

definition selected_slot :: "host \<Rightarrow> sched \<Rightarrow> sched" where
  "selected_slot h = seq
    [ guard (IsHotkey h (SaveState HK_SAVE_STATE_SLOT_SELECTED) False) (emit StateSaveSlotHotkey),
      guard (IsHotkey h (SaveState HK_LOAD_STATE_SLOT_SELECTED) False) (emit StateLoadSlotHotkey) ]"

text \<open>Lines 351 to 395, the three stereoscopy toggles.\<close>

definition toggle_stereo_sbs_tab :: "host \<Rightarrow> sched \<Rightarrow> sched" where
  "toggle_stereo_sbs_tab h s =
    (if GFX_STEREO_MODE s \<noteq> SBS then
       seq [ (\<lambda>s. if GFX_ENHANCE_POST_SHADER s = DUBOIS_ALGORITHM_SHADER
                   then s\<lparr>GFX_ENHANCE_POST_SHADER := []\<rparr> else s),
             (\<lambda>s. s\<lparr>GFX_STEREO_MODE :=
                       (if IsHotkey h (Stereo HK_TOGGLE_STEREO_SBS) False then SBS else TAB)\<rparr>) ] s
     else s\<lparr>GFX_STEREO_MODE := Off\<rparr>)"

definition toggle_stereo_anaglyph :: "sched \<Rightarrow> sched" where
  "toggle_stereo_anaglyph s =
    (if GFX_STEREO_MODE s \<noteq> Anaglyph then
       s\<lparr>GFX_STEREO_MODE := Anaglyph, GFX_ENHANCE_POST_SHADER := DUBOIS_ALGORITHM_SHADER\<rparr>
     else s\<lparr>GFX_STEREO_MODE := Off, GFX_ENHANCE_POST_SHADER := []\<rparr>)"

definition toggle_stereo_3dvision :: "sched \<Rightarrow> sched" where
  "toggle_stereo_3dvision s =
    (if GFX_STEREO_MODE s \<noteq> Nvidia3DVision then
       seq [ (\<lambda>s. if GFX_ENHANCE_POST_SHADER s = DUBOIS_ALGORITHM_SHADER
                   then s\<lparr>GFX_ENHANCE_POST_SHADER := []\<rparr> else s),
             (\<lambda>s. s\<lparr>GFX_STEREO_MODE := Nvidia3DVision\<rparr>) ] s
     else s\<lparr>GFX_STEREO_MODE := Off\<rparr>)"

definition stereoscopy :: "host \<Rightarrow> sched \<Rightarrow> sched" where
  "stereoscopy h = seq
    [ guard (IsHotkey h (Stereo HK_TOGGLE_STEREO_SBS) False
             \<or> IsHotkey h (Stereo HK_TOGGLE_STEREO_TAB) False) (toggle_stereo_sbs_tab h),
      guard (IsHotkey h (Stereo HK_TOGGLE_STEREO_ANAGLYPH) False) toggle_stereo_anaglyph,
      guard (IsHotkey h (Stereo HK_TOGGLE_STEREO_3DVISION) False) toggle_stereo_3dvision ]"

text \<open>Lines 148 to 395: what runs when the core is not stopping and is running and started.\<close>

definition gated :: "host \<Rightarrow> sched \<Rightarrow> sched" where
  "gated h = seq
    [ general_hotkeys h,
      HandleFrameskipHotkeys h,
      recording_hotkeys h,
      sync_button h,
      guard (bEnableDebugging h) (CheckDebuggingHotkeys h),
      wiimote_connect h,
      volume_hotkeys h,
      internal_resolution h,
      graphics_toggles h,
      emulation_speed h,
      selected_slot h,
      stereoscopy h ]"

subsection \<open>After the block: lines 398 to 470\<close>

definition stereo_depth_hotkeys :: "host \<Rightarrow> sched \<Rightarrow> sched" where
  "stereo_depth_hotkeys h s0 =
    (let stereo_depth = GFX_STEREO_DEPTH s0 in seq
      [ guard (IsHotkey h (Stereo HK_DECREASE_DEPTH) True)
          (\<lambda>s. s\<lparr>GFX_STEREO_DEPTH := min (stereo_depth - 1) 0\<rparr>),
        guard (IsHotkey h (Stereo HK_INCREASE_DEPTH) True)
          (\<lambda>s. s\<lparr>GFX_STEREO_DEPTH := min (stereo_depth + 1) 100\<rparr>) ] s0)"

definition stereo_convergence_hotkeys :: "host \<Rightarrow> sched \<Rightarrow> sched" where
  "stereo_convergence_hotkeys h s0 =
    (let stereo_convergence = GFX_STEREO_CONVERGENCE s0 in seq
      [ guard (IsHotkey h (Stereo HK_DECREASE_CONVERGENCE) True)
          (\<lambda>s. s\<lparr>GFX_STEREO_CONVERGENCE := max (stereo_convergence - 5) 0\<rparr>),
        guard (IsHotkey h (Stereo HK_INCREASE_CONVERGENCE) True)
          (\<lambda>s. s\<lparr>GFX_STEREO_CONVERGENCE := min (stereo_convergence + 5) 500\<rparr>) ] s0)"

definition freelook :: "host \<Rightarrow> sched \<Rightarrow> sched" where
  "freelook h = seq
    [ guard (IsHotkey h (Freelook HK_FREELOOK_DECREASE_SPEED) True)
        (\<lambda>s. s\<lparr>fl_speed := fl_speed s / 1.1\<rparr>),
      guard (IsHotkey h (Freelook HK_FREELOOK_INCREASE_SPEED) True)
        (\<lambda>s. s\<lparr>fl_speed := fl_speed s * 1.1\<rparr>),
      guard (IsHotkey h (Freelook HK_FREELOOK_RESET_SPEED) True)
        (\<lambda>s. s\<lparr>fl_speed := 1.0\<rparr>),
      guard (IsHotkey h (Freelook HK_FREELOOK_UP) True)
        (\<lambda>s. eff (TranslateView [0.0, 0.0, - fl_speed s]) s),
      guard (IsHotkey h (Freelook HK_FREELOOK_DOWN) True)
        (\<lambda>s. eff (TranslateView [0.0, 0.0, fl_speed s]) s),
      guard (IsHotkey h (Freelook HK_FREELOOK_LEFT) True)
        (\<lambda>s. eff (TranslateView [fl_speed s, 0.0]) s),
      guard (IsHotkey h (Freelook HK_FREELOOK_RIGHT) True)
        (\<lambda>s. eff (TranslateView [- fl_speed s, 0.0]) s),
      guard (IsHotkey h (Freelook HK_FREELOOK_ZOOM_IN) True)
        (\<lambda>s. eff (TranslateView [0.0, fl_speed s]) s),
      guard (IsHotkey h (Freelook HK_FREELOOK_ZOOM_OUT) True)
        (\<lambda>s. eff (TranslateView [0.0, - fl_speed s]) s),
      guard (IsHotkey h (Freelook HK_FREELOOK_RESET) True) (eff ResetView) ]"

text \<open>The body of the loop over the slots, and the loop \<^verbatim>\<open>for (u32 i = 0; i < NUM_STATES; i++)\<close>.\<close>

definition savestate_slot :: "host \<Rightarrow> nat \<Rightarrow> sched \<Rightarrow> sched" where
  "savestate_slot h i = seq
    [ guard (IsHotkey h (SaveState (HK_LOAD_STATE_SLOT_1_plus i)) False)
        (emit (StateLoadSlot (i + 1))),
      guard (IsHotkey h (SaveState (HK_SAVE_STATE_SLOT_1_plus i)) False)
        (emit (StateSaveSlot (i + 1))),
      guard (IsHotkey h (SaveState (HK_LOAD_LAST_STATE_1_plus i)) False)
        (emit (StateLoadLastSaved (i + 1))),
      guard (IsHotkey h (SaveState (HK_SELECT_STATE_SLOT_1_plus i)) False)
        (emit (SetStateSlotHotkey (i + 1))) ]"

function savestates :: "host \<Rightarrow> nat \<Rightarrow> sched \<Rightarrow> sched" where
  "savestates h i s = (if i < NUM_STATES then savestates h (i + 1) (savestate_slot h i s) else s)"
  by pat_completeness auto
termination
  by (relation "measure (\<lambda>(h, i, s). NUM_STATES - i)") auto

declare savestates.simps [simp del]

definition undo_hotkeys :: "host \<Rightarrow> sched \<Rightarrow> sched" where
  "undo_hotkeys h = seq
    [ guard (IsHotkey h (SaveState HK_SAVE_FIRST_STATE) False) (emit StateSaveOldest),
      guard (IsHotkey h (SaveState HK_UNDO_LOAD_STATE) False) (emit StateLoadUndo),
      guard (IsHotkey h (SaveState HK_UNDO_SAVE_STATE) False) (emit StateSaveUndo) ]"

definition ungated :: "host \<Rightarrow> sched \<Rightarrow> sched" where
  "ungated h = seq
    [ stereo_depth_hotkeys h,
      stereo_convergence_hotkeys h,
      freelook h,
      savestates h 0,
      undo_hotkeys h ]"

subsection \<open>One iteration, and the loop\<close>

text \<open>
  One pass through the body of \<^verbatim>\<open>while (!m_stop_requested.IsSet())\<close>. Each
  \<^verbatim>\<open>continue\<close> ends the iteration with the state reached so far.
\<close>

definition tick :: "host \<Rightarrow> sched \<Rightarrow> sched" where
  "tick h s0 =
    (let s = eff (SleepCurrentThread (1000 div 60)) s0 in
     if \<not> IsEnabled h then s
     else
       let s = guard (GetState h = Uninitialized \<or> GetState h = Paused) (eff UpdateInput) s in
       if GetState h \<noteq> Stopping then
         (let s = eff GetStatus s in
          if \<not> IsRunningAndStarted h then s
          else ungated h (gated h s))
       else ungated h s)"

text \<open>
  The loop, driven by what each iteration observes: it runs one \<open>tick\<close> per observation
  until the stop flag is seen set. The list is the finite prefix of observations considered.
\<close>

fun Run :: "host list \<Rightarrow> sched \<Rightarrow> sched" where
  "Run [] s = s"
| "Run (h # hs) s = (if stop_requested h then s else Run hs (tick h s))"

text \<open>The signals among the effects, in order.\<close>

definition commands :: "sched \<Rightarrow> signal list" where
  "commands s = [c. Emit c \<leftarrow> effects s]"

section \<open>Vocabulary for the properties\<close>

subsection \<open>Which part of the body an iteration reaches\<close>

text \<open>
  \<open>reaches_gated\<close>: the iteration runs lines 148 to 395 (hotkeys enabled, core not stopping,
  running and started). \<open>reaches_slots\<close>: the iteration runs lines 398 to 470 (hotkeys
  enabled and no \<^verbatim>\<open>continue\<close> taken).
\<close>

definition reaches_gated :: "host \<Rightarrow> bool" where
  "reaches_gated h = (IsEnabled h \<and> GetState h \<noteq> Stopping \<and> IsRunningAndStarted h)"

definition reaches_slots :: "host \<Rightarrow> bool" where
  "reaches_slots h = (IsEnabled h \<and> (GetState h = Stopping \<or> IsRunningAndStarted h))"

text \<open>\<open>keeps v f\<close>: the step \<open>f\<close> leaves the observation \<open>v\<close> of the state as it was.\<close>

definition keeps :: "(sched \<Rightarrow> 'a) \<Rightarrow> (sched \<Rightarrow> sched) \<Rightarrow> bool" where
  "keeps v f = (\<forall>s. v (f s) = v s)"

subsection \<open>Frame stepping\<close>

text \<open>The number of \<^verbatim>\<open>Core::DoFrameStep()\<close> calls made so far.\<close>

definition frame_steps :: "sched \<Rightarrow> nat" where
  "frame_steps s = count_list (effects s) DoFrameStep"

text \<open>The frame advance hotkey is held and none of the three speed hotkeys fires.\<close>

definition holding :: "host \<Rightarrow> bool" where
  "holding h =
    (IsHotkey h (FrameAdvance HK_FRAME_ADVANCE) True
     \<and> \<not> IsHotkey h (FrameAdvance HK_FRAME_ADVANCE_INCREASE_SPEED) False
     \<and> \<not> IsHotkey h (FrameAdvance HK_FRAME_ADVANCE_DECREASE_SPEED) False
     \<and> \<not> IsHotkey h (FrameAdvance HK_FRAME_ADVANCE_RESET_SPEED) False)"

text \<open>Consecutive calls of \<^verbatim>\<open>HandleFrameskipHotkeys\<close>, one per observation.\<close>

fun frameskip_ticks :: "host list \<Rightarrow> sched \<Rightarrow> sched" where
  "frameskip_ticks [] s = s"
| "frameskip_ticks (h # hs) s = frameskip_ticks hs (HandleFrameskipHotkeys h s)"

text \<open>
  The statics after the hotkey has been held for \<open>k\<close> calls with delay \<open>d\<close>: the count
  climbs to 30; from call 31 on the machine cycles with period \<open>d + 1\<close>, holding while
  the delay count runs up to \<open>d\<close>.
\<close>

definition held_for :: "nat \<Rightarrow> nat \<Rightarrow> sched \<Rightarrow> bool" where
  "held_for d k s =
    (frame_step_delay s = int d \<and>
     (if k \<le> 30
      then frame_step_count s = int k \<and> \<not> frame_step_hold s \<and> frame_step_delay_count s = 0
      else frame_step_count s = 30 \<and>
           (if (k - 31) mod (d + 1) < d
            then frame_step_hold s \<and> frame_step_delay_count s = int ((k - 31) mod (d + 1))
            else \<not> frame_step_hold s \<and> frame_step_delay_count s = 0)))"

text \<open>The calls (counted from 1) on which a frame step is issued while holding.\<close>

definition fires :: "nat \<Rightarrow> nat \<Rightarrow> bool" where
  "fires d k = (k = 1 \<or> (31 \<le> k \<and> (k - 31) mod (d + 1) = 0))"

subsection \<open>Wii Remote connection\<close>

definition connects :: "sched \<Rightarrow> int list" where
  "connects s = [i. Emit (ConnectWiiRemote i) \<leftarrow> effects s]"

definition connect_hotkey :: "int \<Rightarrow> hotkey" where
  "connect_hotkey i =
    (if i = 0 then Wii HK_WIIMOTE1_CONNECT
     else if i = 1 then Wii HK_WIIMOTE2_CONNECT
     else if i = 2 then Wii HK_WIIMOTE3_CONNECT
     else if i = 3 then Wii HK_WIIMOTE4_CONNECT
     else Wii HK_BALANCEBOARD_CONNECT)"

text \<open>The ids whose connect hotkey fires in this iteration, in increasing order.\<close>

definition asserted_connect_ids :: "host \<Rightarrow> int list" where
  "asserted_connect_ids h = [i \<leftarrow> [0, 1, 2, 3, 4]. IsHotkey h (connect_hotkey i) False]"

subsection \<open>What the code after the stopping check touches\<close>

text \<open>
  \<open>gated_state\<close> blanks the parts of the state that lines 398 to 470 write (stereo depth
  and convergence, the freelook speed, the effect trace); what is left is written only
  inside the block of lines 141 to 396.
\<close>

definition gated_state :: "sched \<Rightarrow> sched" where
  "gated_state s =
     s\<lparr>GFX_STEREO_DEPTH := 0, GFX_STEREO_CONVERGENCE := 0, fl_speed := 0, effects := []\<rparr>"

fun ungated_signal :: "signal \<Rightarrow> bool" where
  "ungated_signal (StateLoadSlot n) = True"
| "ungated_signal (StateSaveSlot n) = True"
| "ungated_signal (StateLoadLastSaved n) = True"
| "ungated_signal (SetStateSlotHotkey n) = True"
| "ungated_signal StateSaveOldest = True"
| "ungated_signal StateLoadUndo = True"
| "ungated_signal StateSaveUndo = True"
| "ungated_signal c = False"

fun ungated_effect :: "effect \<Rightarrow> bool" where
  "ungated_effect (Emit c) = ungated_signal c"
| "ungated_effect (SleepCurrentThread n) = (n = 1000 div 60)"
| "ungated_effect (TranslateView v) = True"
| "ungated_effect ResetView = True"
| "ungated_effect e = False"

text \<open>The effects that only the block of lines 141 to 396 can produce.\<close>

definition gated_effects :: "sched \<Rightarrow> effect list" where
  "gated_effects s = filter (\<lambda>e. \<not> ungated_effect e) (effects s)"

subsection \<open>Concrete inputs\<close>

text \<open>\<open>only k\<close>: exactly the hotkey \<open>k\<close> is reported pressed. \<open>either k1 k2\<close>: exactly two.\<close>

definition only :: "hotkey \<Rightarrow> hotkey \<Rightarrow> bool \<Rightarrow> bool" where
  "only k = (\<lambda>k' held. k' = k)"

definition either :: "hotkey \<Rightarrow> hotkey \<Rightarrow> hotkey \<Rightarrow> bool \<Rightarrow> bool" where
  "either k1 k2 = (\<lambda>k held. k = k1 \<or> k = k2)"

text \<open>A GameCube game running with the renderer up; and the same host while it stops.\<close>

definition running_host :: "(hotkey \<Rightarrow> bool \<Rightarrow> bool) \<Rightarrow> host" where
  "running_host keys =
    \<lparr> stop_requested = False, IsEnabled = True, IsPressed = keys, GetState = Running,
      IsRunningAndStarted = True, m_bt_passthrough_enabled = False, bt_device_present = False,
      bEnableDebugging = False, bWii = False, g_renderer = True, EFB_SCALE_AUTO_INTEGRAL = 0 \<rparr>"

definition stopping_host :: "(hotkey \<Rightarrow> bool \<Rightarrow> bool) \<Rightarrow> host" where
  "stopping_host keys = (running_host keys)\<lparr>GetState := Stopping, IsRunningAndStarted := False\<rparr>"

text \<open>
  The statics at their initialisers (\<^verbatim>\<open>frame_step_delay = 1\<close>, \<^verbatim>\<open>fl_speed = 1.0\<close>),
  emulation speed 1.0, stereoscopy off, and some values for the rest of the configuration.
\<close>

definition startup :: sched where
  "startup =
    \<lparr> frame_step_count = 0, frame_step_delay = 1, frame_step_delay_count = 0,
      frame_step_hold = False, fl_speed = 1.0, m_EmulationSpeed = 1.0, GFX_EFB_SCALE = 1,
      GFX_CROP = False, GFX_ASPECT_RATIO = 0, GFX_HACK_SKIP_EFB_COPY_TO_RAM = True,
      GFX_HACK_SKIP_XFB_COPY_TO_RAM = True, GFX_HACK_IMMEDIATE_XFB = False,
      GFX_DISABLE_FOG = False, GFX_DUMP_TEXTURES = False, GFX_HIRES_TEXTURES = False,
      GFX_STEREO_MODE = Off, GFX_ENHANCE_POST_SHADER = [], GFX_STEREO_DEPTH = 20,
      GFX_STEREO_CONVERGENCE = 20, effects = [] \<rparr>"

section \<open>Evaluation and framing lemmas\<close>

lemmas run_defs =
  general_hotkeys_def recording_hotkeys_def sync_button_def wiimote_id_def wiimote_connect_def
  volume_hotkeys_def internal_resolution_def graphics_toggles_def decrease_emulation_speed_def
  increase_emulation_speed_def emulation_speed_def selected_slot_def toggle_stereo_sbs_tab_def
  toggle_stereo_anaglyph_def toggle_stereo_3dvision_def stereoscopy_def gated_def
  stereo_depth_hotkeys_def stereo_convergence_hotkeys_def freelook_def savestate_slot_def
  undo_hotkeys_def ungated_def tick_def HandleFrameskipHotkeys_def frame_advance_held_def
  CheckDebuggingHotkeys_def show_msg_def guard_def emit_def eff_def IsHotkey_def
  NUM_STATES_def MAX_FRAME_SKIP_DELAY_def FRAME_STEP_DELAY_def DUBOIS_ALGORITHM_SHADER_def
  Let_def savestates.simps

lemmas input_defs = running_host_def stopping_host_def startup_def only_def either_def

lemma keepsD: "keeps v f \<Longrightarrow> v (f s) = v s"
  by (simp add: keeps_def)

lemma keeps_seq_Nil: "keeps v (seq [])"
  by (simp add: keeps_def)

lemma keeps_seq_Cons: "keeps v f \<Longrightarrow> keeps v (seq fs) \<Longrightarrow> keeps v (seq (f # fs))"
  by (simp add: keeps_def)

lemma keeps_guard: "keeps v f \<Longrightarrow> keeps v (guard b f)"
  by (simp add: keeps_def guard_def)

lemma keeps_show_msg: "keeps v (eff (ShowOSDMessage m)) \<Longrightarrow> keeps v (show_msg h m)"
  by (simp add: show_msg_def keeps_guard)

lemma keeps_savestates:
  assumes "\<And>i. keeps v (savestate_slot h i)"
  shows "keeps v (savestates h i)"
proof -
  have "v (savestates h i s) = v s" for s
  proof (induction "NUM_STATES - i" arbitrary: i s)
    case 0
    then show ?case by (subst savestates.simps) simp
  next
    case (Suc n)
    then have "v (savestates h (i + 1) (savestate_slot h i s)) = v (savestate_slot h i s)"
      by simp
    then show ?case using assms by (subst savestates.simps) (simp add: keeps_def)
  qed
  then show ?thesis by (simp add: keeps_def)
qed

lemmas keeps_intros = keeps_seq_Nil keeps_seq_Cons keeps_guard keeps_show_msg

section \<open>Frame stepping while the hotkey is held\<close>

lemma frameskip_ticks_append:
  "frameskip_ticks (hs @ [h]) s = HandleFrameskipHotkeys h (frameskip_ticks hs s)"
  by (induction hs arbitrary: s) simp_all

lemma held_step_early:
  assumes "held_for d k s" "holding h" "k < 30"
  shows "held_for d (Suc k) (HandleFrameskipHotkeys h s)"
    and "frame_steps (HandleFrameskipHotkeys h s)
         = frame_steps s + (if fires d (Suc k) then 1 else 0)"
  using assms
  by (auto simp: held_for_def holding_def HandleFrameskipHotkeys_def frame_advance_held_def
      FRAME_STEP_DELAY_def eff_def frame_steps_def fires_def Let_def)

lemma held_step_30:
  assumes "held_for d 30 s" "holding h"
  shows "held_for d 31 (HandleFrameskipHotkeys h s)"
    and "frame_steps (HandleFrameskipHotkeys h s)
         = frame_steps s + (if fires d 31 then 1 else 0)"
  using assms
  by (auto simp: held_for_def holding_def HandleFrameskipHotkeys_def frame_advance_held_def
      FRAME_STEP_DELAY_def eff_def frame_steps_def fires_def Let_def)

lemma held_step_late:
  assumes "held_for d k s" "holding h" "30 < k"
  shows "held_for d (Suc k) (HandleFrameskipHotkeys h s)"
    and "frame_steps (HandleFrameskipHotkeys h s)
         = frame_steps s + (if fires d (Suc k) then 1 else 0)"
proof -
  from assms(3) have "k = 31 + (k - 31)" by simp
  then obtain j where k: "k = 31 + j" ..
  have m: "Suc j mod Suc d = (if j mod Suc d = d then 0 else Suc (j mod Suc d))"
    by (simp add: mod_Suc)
  have lt: "j mod Suc d < d \<or> j mod Suc d = d"
    using mod_less_divisor[of "Suc d" j] by linarith
  show "held_for d (Suc k) (HandleFrameskipHotkeys h s)"
    using assms(1,2) lt unfolding k
    by (auto simp: held_for_def holding_def HandleFrameskipHotkeys_def frame_advance_held_def
        FRAME_STEP_DELAY_def eff_def m Let_def split: if_splits)
  show "frame_steps (HandleFrameskipHotkeys h s)
        = frame_steps s + (if fires d (Suc k) then 1 else 0)"
    using assms(1,2) lt unfolding k
    by (auto simp: held_for_def holding_def HandleFrameskipHotkeys_def frame_advance_held_def
        FRAME_STEP_DELAY_def eff_def m frame_steps_def fires_def Let_def split: if_splits)
qed

lemma held_for_run:
  assumes "frame_step_delay s = int d" "frame_step_count s = 0" "\<not> frame_step_hold s"
    "frame_step_delay_count s = 0" "\<forall>h \<in> set hs. holding h"
  shows "held_for d (length hs) (frameskip_ticks hs s)"
  using assms(5)
proof (induction hs rule: rev_induct)
  case Nil
  then show ?case using assms(1-4) by (simp add: held_for_def)
next
  case (snoc x xs)
  then have ih: "held_for d (length xs) (frameskip_ticks xs s)" and x: "holding x"
    by simp_all
  consider "length xs < 30" | "length xs = 30" | "30 < length xs" by linarith
  then show ?case
  proof cases
    case 1
    then show ?thesis
      using held_step_early(1)[OF ih x] by (simp add: frameskip_ticks_append)
  next
    case 2
    then show ?thesis
      using held_step_30(1)[of d _ x] ih x by (simp add: frameskip_ticks_append)
  next
    case 3
    then show ?thesis
      using held_step_late(1)[OF ih x] by (simp add: frameskip_ticks_append)
  qed
qed

text \<open>
  C1, as amended. For every delay setting \<open>d\<close> in [0, 60]: starting from the initial
  frame-step state (count 0, not holding, delay count 0) and with the frame advance hotkey
  held on every call, the call number \<open>k\<close> (counted from 1) issues exactly one frame step
  when \<open>k = 1\<close> or \<open>k = 31 + j * (d + 1)\<close> for some \<open>j\<close>, and none otherwise: one step at
  once, the next after 30 calls, and from then on one step every \<open>d + 1\<close> calls.
\<close>

theorem frame_step_hold_cadence:
  assumes "d \<le> 60" "frame_step_delay s = int d" "frame_step_count s = 0"
    "\<not> frame_step_hold s" "frame_step_delay_count s = 0"
    "\<forall>h \<in> set hs. holding h" "holding h"
  shows "frame_steps (HandleFrameskipHotkeys h (frameskip_ticks hs s)) =
         frame_steps (frameskip_ticks hs s) + (if fires d (length hs + 1) then 1 else 0)"
proof -
  have inv: "held_for d (length hs) (frameskip_ticks hs s)"
    using assms(2-6) by (rule held_for_run)
  consider "length hs < 30" | "length hs = 30" | "30 < length hs" by linarith
  then show ?thesis
  proof cases
    case 1
    then show ?thesis using held_step_early(2)[OF inv assms(7)] by simp
  next
    case 2
    then show ?thesis using held_step_30(2)[of d _ h] inv assms(7) by simp
  next
    case 3
    then show ?thesis using held_step_late(2)[OF inv assms(7)] by simp
  qed
qed

text \<open>
  At the default delay 1 and after 32 held calls, call 33 = 31 + 1 * 2 issues a step.
\<close>

theorem frame_step_hold_cadence_witness:
  "(1::nat) \<le> 60 \<and> frame_step_delay startup = int 1 \<and> frame_step_count startup = 0
   \<and> \<not> frame_step_hold startup \<and> frame_step_delay_count startup = 0
   \<and> holding (running_host (only (FrameAdvance HK_FRAME_ADVANCE)))
   \<and> frame_steps (HandleFrameskipHotkeys (running_host (only (FrameAdvance HK_FRAME_ADVANCE)))
        (frameskip_ticks (replicate 32 (running_host (only (FrameAdvance HK_FRAME_ADVANCE)))) startup))
     = frame_steps
        (frameskip_ticks (replicate 32 (running_host (only (FrameAdvance HK_FRAME_ADVANCE)))) startup) + 1"
proof -
  have hold: "holding (running_host (only (FrameAdvance HK_FRAME_ADVANCE)))"
    by (simp add: holding_def IsHotkey_def input_defs)
  have init: "frame_step_delay startup = int 1" "frame_step_count startup = 0"
    "\<not> frame_step_hold startup" "frame_step_delay_count startup = 0"
    by (simp_all add: startup_def)
  have all: "\<forall>h \<in> set (replicate 32 (running_host (only (FrameAdvance HK_FRAME_ADVANCE)))). holding h"
    using hold by simp
  have "fires 1 (length (replicate 32 (running_host (only (FrameAdvance HK_FRAME_ADVANCE)))) + 1)"
    by code_simp
  then show ?thesis
    using frame_step_hold_cadence[of 1 startup
        "replicate 32 (running_host (only (FrameAdvance HK_FRAME_ADVANCE)))"
        "running_host (only (FrameAdvance HK_FRAME_ADVANCE))"] hold init all
    by simp
qed

text \<open>
  C1 as stated fails. With delay 1 the claim gives one step every 31 calls, so two steps in
  the first 62 calls. The code has issued two steps after 31 calls, a third two calls later,
  and seventeen after 62 calls.
\<close>

theorem frame_step_hold_cadence_counterexample:
  "frame_step_delay startup = 1
   \<and> frame_steps (frameskip_ticks
        (replicate 31 (running_host (only (FrameAdvance HK_FRAME_ADVANCE)))) startup) = 2
   \<and> frame_steps (frameskip_ticks
        (replicate 33 (running_host (only (FrameAdvance HK_FRAME_ADVANCE)))) startup) = 3
   \<and> frame_steps (frameskip_ticks
        (replicate 62 (running_host (only (FrameAdvance HK_FRAME_ADVANCE)))) startup) = 17"
  by code_simp

section \<open>Emulation speed\<close>

lemma speed_frame:
  "keeps m_EmulationSpeed (general_hotkeys h)"
  "keeps m_EmulationSpeed (recording_hotkeys h)"
  "keeps m_EmulationSpeed (sync_button h)"
  "keeps m_EmulationSpeed (CheckDebuggingHotkeys h)"
  "keeps m_EmulationSpeed (wiimote_connect h)"
  "keeps m_EmulationSpeed (volume_hotkeys h)"
  "keeps m_EmulationSpeed (graphics_toggles h)"
  "keeps m_EmulationSpeed (selected_slot h)"
  "keeps m_EmulationSpeed (freelook h)"
  "keeps m_EmulationSpeed (savestate_slot h i)"
  "keeps m_EmulationSpeed (undo_hotkeys h)"
  unfolding general_hotkeys_def recording_hotkeys_def sync_button_def CheckDebuggingHotkeys_def
    volume_hotkeys_def graphics_toggles_def selected_slot_def wiimote_connect_def
    freelook_def savestate_slot_def undo_hotkeys_def
  by (intro keeps_intros; simp add: keeps_def eff_def emit_def Let_def)+

lemma speed_frame_direct:
  "keeps m_EmulationSpeed (HandleFrameskipHotkeys h)"
  "keeps m_EmulationSpeed (internal_resolution h)"
  "keeps m_EmulationSpeed (stereoscopy h)"
  "keeps m_EmulationSpeed (stereo_depth_hotkeys h)"
  "keeps m_EmulationSpeed (stereo_convergence_hotkeys h)"
  by (simp_all add: keeps_def HandleFrameskipHotkeys_def frame_advance_held_def
      internal_resolution_def stereoscopy_def toggle_stereo_sbs_tab_def
      toggle_stereo_anaglyph_def toggle_stereo_3dvision_def stereo_depth_hotkeys_def
      stereo_convergence_hotkeys_def show_msg_def guard_def eff_def Let_def)

text \<open>What lines 325 to 341 store, as a function of the speed read and the two hotkeys.\<close>

lemma speed_emulation_speed:
  "m_EmulationSpeed (emulation_speed h s) =
    (let v = m_EmulationSpeed s;
         v = (if IsHotkey h (Graphics HK_DECREASE_EMULATION_SPEED) False
              then (if v - 0.1 \<le> 0 \<or> (0.95 \<le> v - 0.1 \<and> v - 0.1 \<le> 1.05) then 1 else v - 0.1)
              else v)
     in if IsHotkey h (Graphics HK_INCREASE_EMULATION_SPEED) False
        then (if 0.95 \<le> v + 0.1 \<and> v + 0.1 \<le> 1.05 then 1 else v + 0.1)
        else v)"
  by (simp add: emulation_speed_def decrease_emulation_speed_def increase_emulation_speed_def
      show_msg_def guard_def eff_def Let_def)

text \<open>
  A decrease from any speed strictly between 0.1 and 1.05 stores the plain difference: the
  result stays below the band, whatever the last digits of the speed are.
\<close>

lemma decrease_below_band:
  assumes "IsHotkey h (Graphics HK_DECREASE_EMULATION_SPEED) False"
    "\<not> IsHotkey h (Graphics HK_INCREASE_EMULATION_SPEED) False"
    "0.1 < m_EmulationSpeed s" "m_EmulationSpeed s < 1.05"
  shows "m_EmulationSpeed (emulation_speed h s) = m_EmulationSpeed s - 0.1"
    and "m_EmulationSpeed (emulation_speed h s) < 0.95"
  using assms by (simp_all add: speed_emulation_speed Let_def)

text \<open>Nothing else in an iteration writes the emulation speed.\<close>

lemma speed_tick:
  assumes "reaches_gated h"
  shows "m_EmulationSpeed (tick h s) = m_EmulationSpeed (emulation_speed h s)"
proof -
  have "m_EmulationSpeed (tick h s) = m_EmulationSpeed (gated h
          (eff GetStatus (guard (GetState h = Uninitialized \<or> GetState h = Paused) (eff UpdateInput)
             (eff (SleepCurrentThread (1000 div 60)) s))))" (is "_ = m_EmulationSpeed (gated h ?s)")
    using assms
    by (simp add: tick_def reaches_gated_def Let_def ungated_def speed_frame speed_frame_direct
        keeps_savestates keepsD)
  also have "\<dots> = m_EmulationSpeed (emulation_speed h ?s)"
    apply (simp add: gated_def speed_frame speed_frame_direct keepsD keeps_guard)
    apply (simp add: speed_emulation_speed speed_frame speed_frame_direct keepsD keeps_guard)
    done
  also have "\<dots> = m_EmulationSpeed (emulation_speed h s)"
    by (simp add: speed_emulation_speed) (simp add: eff_def guard_def)
  finally show ?thesis .
qed

text \<open>
  C2, as amended. With the emulation speed at 1.0, an iteration in which the decrease
  action fires (and the increase action does not) stores 0.9: the adjusted value 0.9 is
  above 0 and outside the band [0.95, 1.05], so it is not replaced by 1.0.
\<close>

theorem decrease_from_default_speed:
  assumes "reaches_gated h" "IsHotkey h (Graphics HK_DECREASE_EMULATION_SPEED) False"
    "\<not> IsHotkey h (Graphics HK_INCREASE_EMULATION_SPEED) False" "m_EmulationSpeed s = 1"
  shows "m_EmulationSpeed (tick h s) = 0.9"
  using assms by (simp add: speed_tick speed_emulation_speed Let_def)

theorem decrease_from_default_speed_witness:
  "reaches_gated (running_host (only (Graphics HK_DECREASE_EMULATION_SPEED)))
   \<and> IsHotkey (running_host (only (Graphics HK_DECREASE_EMULATION_SPEED)))
        (Graphics HK_DECREASE_EMULATION_SPEED) False
   \<and> \<not> IsHotkey (running_host (only (Graphics HK_DECREASE_EMULATION_SPEED)))
        (Graphics HK_INCREASE_EMULATION_SPEED) False
   \<and> m_EmulationSpeed startup = 1
   \<and> m_EmulationSpeed (tick (running_host (only (Graphics HK_DECREASE_EMULATION_SPEED))) startup)
       = 0.9"
  using decrease_from_default_speed
    [of "running_host (only (Graphics HK_DECREASE_EMULATION_SPEED))" startup]
  by (simp add: reaches_gated_def IsHotkey_def input_defs)

text \<open>
  C2 as stated fails: from speed 1.0, one decrease does not leave the speed at 1.0.
\<close>

theorem decrease_from_default_speed_counterexample:
  "m_EmulationSpeed startup = 1
   \<and> m_EmulationSpeed (tick (running_host (only (Graphics HK_DECREASE_EMULATION_SPEED))) startup)
       \<noteq> 1"
  by (simp add: run_defs input_defs)

text \<open>
  C3. In an iteration that reaches the emulation speed hotkeys with current speed \<open>v\<close>:
  if only the decrease action fires, the speed stored is 1.0 when \<open>v - 0.1 \<le> 0\<close> or
  \<open>0.95 \<le> v - 0.1 \<le> 1.05\<close>, and \<open>v - 0.1\<close> otherwise; if only the increase action fires,
  it is 1.0 when \<open>0.95 \<le> v + 0.1 \<le> 1.05\<close>, and \<open>v + 0.1\<close> otherwise.
\<close>

theorem emulation_speed_snap:
  assumes "reaches_gated h"
  shows
   "(IsHotkey h (Graphics HK_DECREASE_EMULATION_SPEED) False
       \<and> \<not> IsHotkey h (Graphics HK_INCREASE_EMULATION_SPEED) False \<longrightarrow>
     m_EmulationSpeed (tick h s) =
       (if m_EmulationSpeed s - 0.1 \<le> 0
           \<or> (0.95 \<le> m_EmulationSpeed s - 0.1 \<and> m_EmulationSpeed s - 0.1 \<le> 1.05)
        then 1 else m_EmulationSpeed s - 0.1))
  \<and> (IsHotkey h (Graphics HK_INCREASE_EMULATION_SPEED) False
       \<and> \<not> IsHotkey h (Graphics HK_DECREASE_EMULATION_SPEED) False \<longrightarrow>
     m_EmulationSpeed (tick h s) =
       (if 0.95 \<le> m_EmulationSpeed s + 0.1 \<and> m_EmulationSpeed s + 0.1 \<le> 1.05
        then 1 else m_EmulationSpeed s + 0.1))"
  using assms by (simp add: speed_tick speed_emulation_speed Let_def)

text \<open>
  Decreasing from 1.1 lands in the band and stores 1.0; decreasing from 0.05 crosses zero
  and stores 1.0; increasing from 0.9 lands in the band and stores 1.0; increasing from
  1.0 leaves the band and stores 1.1.
\<close>

theorem emulation_speed_snap_witness:
  "reaches_gated (running_host (only (Graphics HK_DECREASE_EMULATION_SPEED)))
   \<and> m_EmulationSpeed (tick (running_host (only (Graphics HK_DECREASE_EMULATION_SPEED)))
        (startup\<lparr>m_EmulationSpeed := 1.1\<rparr>)) = 1
   \<and> m_EmulationSpeed (tick (running_host (only (Graphics HK_DECREASE_EMULATION_SPEED)))
        (startup\<lparr>m_EmulationSpeed := 0.05\<rparr>)) = 1
   \<and> reaches_gated (running_host (only (Graphics HK_INCREASE_EMULATION_SPEED)))
   \<and> m_EmulationSpeed (tick (running_host (only (Graphics HK_INCREASE_EMULATION_SPEED)))
        (startup\<lparr>m_EmulationSpeed := 0.9\<rparr>)) = 1
   \<and> m_EmulationSpeed (tick (running_host (only (Graphics HK_INCREASE_EMULATION_SPEED)))
        startup) = 1.1"
  using
    emulation_speed_snap [of "running_host (only (Graphics HK_DECREASE_EMULATION_SPEED))"
      "startup\<lparr>m_EmulationSpeed := 1.1\<rparr>"]
    emulation_speed_snap [of "running_host (only (Graphics HK_DECREASE_EMULATION_SPEED))"
      "startup\<lparr>m_EmulationSpeed := 0.05\<rparr>"]
    emulation_speed_snap [of "running_host (only (Graphics HK_INCREASE_EMULATION_SPEED))"
      "startup\<lparr>m_EmulationSpeed := 0.9\<rparr>"]
    emulation_speed_snap [of "running_host (only (Graphics HK_INCREASE_EMULATION_SPEED))"
      startup]
  by (simp add: reaches_gated_def IsHotkey_def input_defs)

section \<open>Connecting Wii Remotes\<close>

lemma connects_frame:
  "keeps connects (general_hotkeys h)"
  "keeps connects (recording_hotkeys h)"
  "keeps connects (sync_button h)"
  "keeps connects (CheckDebuggingHotkeys h)"
  "keeps connects (volume_hotkeys h)"
  "keeps connects (graphics_toggles h)"
  "keeps connects (emulation_speed h)"
  "keeps connects (selected_slot h)"
  "keeps connects (freelook h)"
  "keeps connects (savestate_slot h i)"
  "keeps connects (undo_hotkeys h)"
  unfolding general_hotkeys_def recording_hotkeys_def sync_button_def CheckDebuggingHotkeys_def
    volume_hotkeys_def graphics_toggles_def emulation_speed_def selected_slot_def
    freelook_def savestate_slot_def undo_hotkeys_def decrease_emulation_speed_def
    increase_emulation_speed_def
  by (intro keeps_intros; simp add: keeps_def connects_def eff_def emit_def Let_def)+

lemma connects_frame_direct:
  "keeps connects (HandleFrameskipHotkeys h)"
  "keeps connects (internal_resolution h)"
  "keeps connects (stereoscopy h)"
  "keeps connects (stereo_depth_hotkeys h)"
  "keeps connects (stereo_convergence_hotkeys h)"
  by (simp_all add: keeps_def connects_def HandleFrameskipHotkeys_def frame_advance_held_def
      internal_resolution_def stereoscopy_def toggle_stereo_sbs_tab_def
      toggle_stereo_anaglyph_def toggle_stereo_3dvision_def stereo_depth_hotkeys_def
      stereo_convergence_hotkeys_def show_msg_def guard_def eff_def Let_def)

lemma connects_ungated: "connects (ungated h s) = connects s"
  by (simp add: ungated_def connects_frame connects_frame_direct keeps_savestates keepsD)

lemma connects_wiimote_connect:
  "connects (wiimote_connect h s) =
     connects s @ (if bWii h \<and> wiimote_id h > - 1 then [wiimote_id h] else [])"
  by (simp add: wiimote_connect_def guard_def emit_def eff_def connects_def)

lemma connects_gated:
  "connects (gated h s) =
     connects s @ (if bWii h \<and> wiimote_id h > - 1 then [wiimote_id h] else [])"
  by (simp add: gated_def connects_frame connects_frame_direct keepsD keeps_guard
      connects_wiimote_connect)

lemma connects_tick:
  "connects (tick h s) =
     connects s @
       (if reaches_gated h \<and> bWii h \<and> wiimote_id h > - 1 then [wiimote_id h] else [])"
  by (simp add: tick_def Let_def connects_ungated connects_gated reaches_gated_def)
     (simp add: connects_def eff_def guard_def)

text \<open>The chain of assignments of lines 227 to 237 ends with the highest id that fired.\<close>

lemma wiimote_id_highest:
  "wiimote_id h =
     (if asserted_connect_ids h = [] then - 1 else Max (set (asserted_connect_ids h)))"
  by (simp add: wiimote_id_def asserted_connect_ids_def connect_hotkey_def Let_def)

text \<open>
  C10. In Wii mode, an iteration appends at most one connect command to those emitted
  before: none when no connect action fires (or the iteration does not reach line 225),
  and otherwise exactly one, carrying the highest id among the actions that fired
  (Balance Board 4 over Wii Remote 4, 3, 2, 1 with ids 3, 2, 1, 0).
\<close>

theorem wii_connect_highest_id:
  assumes "bWii h"
  shows "connects (tick h s) = connects s @
           (if reaches_gated h \<and> asserted_connect_ids h \<noteq> []
            then [Max (set (asserted_connect_ids h))] else [])"
proof -
  have "\<forall>x \<in> set (asserted_connect_ids h). 0 \<le> x"
    by (simp add: asserted_connect_ids_def)
  then have "asserted_connect_ids h \<noteq> [] \<Longrightarrow> Max (set (asserted_connect_ids h)) \<ge> 0"
    using Max_in[of "set (asserted_connect_ids h)"] by simp
  then show ?thesis using assms by (auto simp: connects_tick wiimote_id_highest)
qed

text \<open>Wii Remote 2 and the Balance Board fire together: one command, with id 4.\<close>

theorem wii_connect_highest_id_witness:
  "bWii ((running_host (either (Wii HK_WIIMOTE2_CONNECT) (Wii HK_BALANCEBOARD_CONNECT)))
          \<lparr>bWii := True\<rparr>)
   \<and> connects (tick ((running_host (either (Wii HK_WIIMOTE2_CONNECT) (Wii HK_BALANCEBOARD_CONNECT)))
          \<lparr>bWii := True\<rparr>) startup) = [4]"
  using wii_connect_highest_id
    [of "(running_host (either (Wii HK_WIIMOTE2_CONNECT) (Wii HK_BALANCEBOARD_CONNECT)))
          \<lparr>bWii := True\<rparr>" startup]
  by (simp add: reaches_gated_def asserted_connect_ids_def connect_hotkey_def IsHotkey_def
      connects_def input_defs)

section \<open>Savestate slots\<close>

lemma commands_frame:
  "keeps commands (sync_button h)"
  "keeps commands (volume_hotkeys h)"
  "keeps commands (graphics_toggles h)"
  "keeps commands (emulation_speed h)"
  "keeps commands (freelook h)"
  unfolding sync_button_def volume_hotkeys_def graphics_toggles_def emulation_speed_def
    freelook_def decrease_emulation_speed_def increase_emulation_speed_def
  by (intro keeps_intros; simp add: keeps_def commands_def eff_def Let_def)+

lemma commands_frame_direct:
  "keeps commands (HandleFrameskipHotkeys h)"
  "keeps commands (internal_resolution h)"
  "keeps commands (stereoscopy h)"
  "keeps commands (stereo_depth_hotkeys h)"
  "keeps commands (stereo_convergence_hotkeys h)"
  by (simp_all add: keeps_def commands_def HandleFrameskipHotkeys_def frame_advance_held_def
      internal_resolution_def stereoscopy_def toggle_stereo_sbs_tab_def
      toggle_stereo_anaglyph_def toggle_stereo_3dvision_def stereo_depth_hotkeys_def
      stereo_convergence_hotkeys_def show_msg_def guard_def eff_def Let_def)

lemma commands_eff:
  "commands (eff e s) = commands s @ (case e of Emit c \<Rightarrow> [c] | _ \<Rightarrow> [])"
  by (cases e) (simp_all add: commands_def eff_def)

text \<open>With one per-slot hotkey pressed and nothing else, the other emitting blocks are silent.\<close>

lemma commands_quiet:
  assumes "IsPressed h = only (SaveState (k i))"
    "k = HK_LOAD_STATE_SLOT_1_plus \<or> k = HK_SAVE_STATE_SLOT_1_plus
     \<or> k = HK_LOAD_LAST_STATE_1_plus \<or> k = HK_SELECT_STATE_SLOT_1_plus"
  shows "keeps commands (general_hotkeys h)"
    "keeps commands (recording_hotkeys h)"
    "keeps commands (CheckDebuggingHotkeys h)"
    "keeps commands (wiimote_connect h)"
    "keeps commands (selected_slot h)"
    "keeps commands (undo_hotkeys h)"
  using assms
  by (auto simp add: keeps_def general_hotkeys_def recording_hotkeys_def
      CheckDebuggingHotkeys_def wiimote_connect_def wiimote_id_def selected_slot_def
      undo_hotkeys_def IsHotkey_def only_def guard_def Let_def)

lemma commands_gated_quiet:
  assumes "IsPressed h = only (SaveState (k i))"
    "k = HK_LOAD_STATE_SLOT_1_plus \<or> k = HK_SAVE_STATE_SLOT_1_plus
     \<or> k = HK_LOAD_LAST_STATE_1_plus \<or> k = HK_SELECT_STATE_SLOT_1_plus"
  shows "commands (gated h s) = commands s"
  by (simp add: gated_def keepsD keeps_guard commands_frame commands_frame_direct
      commands_quiet[OF assms])

lemma commands_savestate_slot:
  "IsPressed h = only (SaveState (HK_LOAD_STATE_SLOT_1_plus i)) \<Longrightarrow>
     commands (savestate_slot h j s)
     = commands s @ (if j = i then [StateLoadSlot (i + 1)] else [])"
  "IsPressed h = only (SaveState (HK_SAVE_STATE_SLOT_1_plus i)) \<Longrightarrow>
     commands (savestate_slot h j s)
     = commands s @ (if j = i then [StateSaveSlot (i + 1)] else [])"
  "IsPressed h = only (SaveState (HK_LOAD_LAST_STATE_1_plus i)) \<Longrightarrow>
     commands (savestate_slot h j s)
     = commands s @ (if j = i then [StateLoadLastSaved (i + 1)] else [])"
  "IsPressed h = only (SaveState (HK_SELECT_STATE_SLOT_1_plus i)) \<Longrightarrow>
     commands (savestate_slot h j s)
     = commands s @ (if j = i then [SetStateSlotHotkey (i + 1)] else [])"
  by (simp_all add: savestate_slot_def IsHotkey_def only_def guard_def emit_def commands_eff)

text \<open>The loop started at \<open>j\<close> emits what the one matching iteration emits.\<close>

lemma commands_savestates:
  assumes "\<And>j s. commands (savestate_slot h j s) = commands s @ (if j = i then [c] else [])"
  shows "commands (savestates h j s)
         = commands s @ (if j \<le> i \<and> i < NUM_STATES then [c] else [])"
proof (induction "NUM_STATES - j" arbitrary: j s)
  case 0
  then show ?case by (subst savestates.simps) simp
next
  case (Suc n)
  then have "commands (savestates h (j + 1) (savestate_slot h j s)) =
      commands (savestate_slot h j s) @ (if j + 1 \<le> i \<and> i < NUM_STATES then [c] else [])"
    by simp
  then show ?case using assms Suc.hyps(2) by (subst savestates.simps) auto
qed

lemma commands_tick_slot:
  assumes "IsPressed h = only (SaveState (k i))"
    "k = HK_LOAD_STATE_SLOT_1_plus \<or> k = HK_SAVE_STATE_SLOT_1_plus
     \<or> k = HK_LOAD_LAST_STATE_1_plus \<or> k = HK_SELECT_STATE_SLOT_1_plus"
    "reaches_slots h" "i < NUM_STATES"
    "\<And>j s. commands (savestate_slot h j s) = commands s @ (if j = i then [c] else [])"
  shows "commands (tick h s) = commands s @ [c]"
proof -
  have u: "commands (ungated h s') = commands s' @ [c]" for s'
    using assms(4)
    by (simp add: ungated_def keepsD commands_quiet(6)[OF assms(1,2)]
        commands_savestates[OF assms(5)] commands_frame commands_frame_direct)
  show ?thesis using assms(3)
    by (auto simp add: tick_def Let_def reaches_slots_def u commands_gated_quiet[OF assms(1,2)]
        guard_def commands_eff)
qed

text \<open>
  C7. For every slot index \<open>i\<close> below \<open>NUM_STATES = 10\<close>: in an iteration that reaches the
  slot loop and in which only the load-slot-\<open>i\<close> hotkey (respectively save-slot-\<open>i\<close>,
  load-last-saved-\<open>i\<close>, select-slot-\<open>i\<close>) is pressed, the commands emitted by the whole
  iteration are exactly one: the corresponding command carrying \<open>i + 1\<close>.
\<close>

theorem slot_commands:
  assumes "reaches_slots h" "i < NUM_STATES"
  shows
   "(IsPressed h = only (SaveState (HK_LOAD_STATE_SLOT_1_plus i)) \<longrightarrow>
       commands (tick h s) = commands s @ [StateLoadSlot (i + 1)])
  \<and> (IsPressed h = only (SaveState (HK_SAVE_STATE_SLOT_1_plus i)) \<longrightarrow>
       commands (tick h s) = commands s @ [StateSaveSlot (i + 1)])
  \<and> (IsPressed h = only (SaveState (HK_LOAD_LAST_STATE_1_plus i)) \<longrightarrow>
       commands (tick h s) = commands s @ [StateLoadLastSaved (i + 1)])
  \<and> (IsPressed h = only (SaveState (HK_SELECT_STATE_SLOT_1_plus i)) \<longrightarrow>
       commands (tick h s) = commands s @ [SetStateSlotHotkey (i + 1)])"
  using assms
  by (auto intro!: commands_tick_slot simp: commands_savestate_slot)

text \<open>Load-slot-3 alone emits the load command carrying 4, and nothing else.\<close>

theorem slot_commands_witness:
  "reaches_slots (running_host (only (SaveState (HK_LOAD_STATE_SLOT_1_plus 3))))
   \<and> 3 < NUM_STATES
   \<and> commands (tick (running_host (only (SaveState (HK_LOAD_STATE_SLOT_1_plus 3)))) startup)
       = [StateLoadSlot 4]"
  using slot_commands
    [of "running_host (only (SaveState (HK_LOAD_STATE_SLOT_1_plus 3)))" 3 startup]
  by (simp add: reaches_slots_def NUM_STATES_def commands_def input_defs)

section \<open>Iterations while the core is stopping\<close>

lemma gated_state_frame:
  "keeps gated_state (freelook h)"
  "keeps gated_state (savestate_slot h i)"
  "keeps gated_state (undo_hotkeys h)"
  unfolding freelook_def savestate_slot_def undo_hotkeys_def
  by (intro keeps_intros; simp add: keeps_def gated_state_def eff_def emit_def)+

lemma gated_state_frame_direct:
  "keeps gated_state (stereo_depth_hotkeys h)"
  "keeps gated_state (stereo_convergence_hotkeys h)"
  by (simp_all add: keeps_def gated_state_def stereo_depth_hotkeys_def
      stereo_convergence_hotkeys_def guard_def Let_def)

lemma gated_effects_frame:
  "keeps gated_effects (freelook h)"
  "keeps gated_effects (savestate_slot h i)"
  "keeps gated_effects (undo_hotkeys h)"
  unfolding freelook_def savestate_slot_def undo_hotkeys_def
  by (intro keeps_intros; simp add: keeps_def gated_effects_def eff_def emit_def)+

lemma gated_effects_frame_direct:
  "keeps gated_effects (stereo_depth_hotkeys h)"
  "keeps gated_effects (stereo_convergence_hotkeys h)"
  by (simp_all add: keeps_def gated_effects_def stereo_depth_hotkeys_def
      stereo_convergence_hotkeys_def guard_def Let_def)

lemma ungated_frame:
  "gated_state (ungated h s) = gated_state s"
  "gated_effects (ungated h s) = gated_effects s"
  by (simp_all add: ungated_def keepsD keeps_savestates gated_state_frame
      gated_state_frame_direct gated_effects_frame gated_effects_frame_direct)

text \<open>
  C6, as amended. In an iteration where the core state is Stopping, the block of lines 141
  to 396 is skipped: none of its commands or calls is made, and the frame-step statics, the
  emulation speed and every configuration value it writes are unchanged. The hotkeys
  checked after the block (stereo depth and convergence, freelook, the savestate slots and
  undo actions, lines 398 to 470) are still processed in that iteration when hotkeys are
  enabled. The loop goes on to the next iteration unless the stop flag is set.
\<close>

theorem stopping_tick:
  assumes "GetState h = Stopping"
  shows "gated_state (tick h s) = gated_state s
       \<and> gated_effects (tick h s) = gated_effects s
       \<and> (IsEnabled h \<longrightarrow> tick h s = ungated h (eff (SleepCurrentThread (1000 div 60)) s))
       \<and> (\<not> stop_requested h \<longrightarrow> Run (h # hs) s = Run hs (tick h s))"
  using assms
  by (simp add: tick_def Let_def guard_def ungated_frame)
     (simp add: gated_state_def gated_effects_def eff_def)

text \<open>
  While stopping, with increase-depth held and load-slot-3 pressed: nothing of the block
  happens, and the loop continues.
\<close>

theorem stopping_tick_witness:
  "GetState (stopping_host (either (Stereo HK_INCREASE_DEPTH)
       (SaveState (HK_LOAD_STATE_SLOT_1_plus 3)))) = Stopping
   \<and> IsEnabled (stopping_host (either (Stereo HK_INCREASE_DEPTH)
       (SaveState (HK_LOAD_STATE_SLOT_1_plus 3))))
   \<and> \<not> stop_requested (stopping_host (either (Stereo HK_INCREASE_DEPTH)
       (SaveState (HK_LOAD_STATE_SLOT_1_plus 3))))
   \<and> gated_state (tick (stopping_host (either (Stereo HK_INCREASE_DEPTH)
       (SaveState (HK_LOAD_STATE_SLOT_1_plus 3)))) startup) = gated_state startup
   \<and> gated_effects (tick (stopping_host (either (Stereo HK_INCREASE_DEPTH)
       (SaveState (HK_LOAD_STATE_SLOT_1_plus 3)))) startup) = []
   \<and> Run [stopping_host (either (Stereo HK_INCREASE_DEPTH)
       (SaveState (HK_LOAD_STATE_SLOT_1_plus 3)))] startup
     = tick (stopping_host (either (Stereo HK_INCREASE_DEPTH)
       (SaveState (HK_LOAD_STATE_SLOT_1_plus 3)))) startup"
proof -
  let ?h = "stopping_host (either (Stereo HK_INCREASE_DEPTH)
       (SaveState (HK_LOAD_STATE_SLOT_1_plus 3)))"
  have st: "GetState ?h = Stopping"
    by (simp add: input_defs)
  have en: "IsEnabled ?h" "\<not> stop_requested ?h"
    by (simp_all add: input_defs)
  have ge: "gated_effects startup = []"
    by (simp add: gated_effects_def startup_def)
  note t = stopping_tick [OF st, of startup "[]"]
  have a: "gated_state (tick ?h startup) = gated_state startup"
    using t by (rule conjunct1)
  have b: "gated_effects (tick ?h startup) = []"
    using t ge by (simp only:)
  have c: "Run [?h] startup = tick ?h startup"
    using t en(2) by (simp only: Run.simps simp_thms)
  show ?thesis
    using st en a b c by (intro conjI)
qed

text \<open>
  C6 as stated fails. In an iteration where the core state is Stopping, with
  increase-depth held and load-slot-3 pressed, a command is emitted and the stereo depth
  configuration changes from 20 to 21.
\<close>

theorem stopping_tick_counterexample:
  "GetState (stopping_host (either (Stereo HK_INCREASE_DEPTH)
       (SaveState (HK_LOAD_STATE_SLOT_1_plus 3)))) = Stopping
   \<and> commands startup = []
   \<and> commands (tick (stopping_host (either (Stereo HK_INCREASE_DEPTH)
       (SaveState (HK_LOAD_STATE_SLOT_1_plus 3)))) startup) = [StateLoadSlot 4]
   \<and> GFX_STEREO_DEPTH startup = 20
   \<and> GFX_STEREO_DEPTH (tick (stopping_host (either (Stereo HK_INCREASE_DEPTH)
       (SaveState (HK_LOAD_STATE_SLOT_1_plus 3)))) startup) = 21"
  by (simp add: run_defs commands_def input_defs)

section \<open>Stereo depth and convergence\<close>

text \<open>What lines 398 to 412 store when exactly one of the four hotkeys is held.\<close>

lemma stereo_depth_decrease:
  "IsPressed h = only (Stereo HK_DECREASE_DEPTH) \<Longrightarrow>
     GFX_STEREO_DEPTH (stereo_depth_hotkeys h s) = min (GFX_STEREO_DEPTH s - 1) 0"
  by (simp add: stereo_depth_hotkeys_def guard_def IsHotkey_def only_def Let_def)

lemma stereo_depth_increase:
  "IsPressed h = only (Stereo HK_INCREASE_DEPTH) \<Longrightarrow>
     GFX_STEREO_DEPTH (stereo_depth_hotkeys h s) = min (GFX_STEREO_DEPTH s + 1) 100"
  by (simp add: stereo_depth_hotkeys_def guard_def IsHotkey_def only_def Let_def)

lemma stereo_convergence_decrease:
  "IsPressed h = only (Stereo HK_DECREASE_CONVERGENCE) \<Longrightarrow>
     GFX_STEREO_CONVERGENCE (stereo_convergence_hotkeys h s)
     = max (GFX_STEREO_CONVERGENCE s - 5) 0"
  by (simp add: stereo_convergence_hotkeys_def guard_def IsHotkey_def only_def Let_def)

lemma stereo_convergence_increase:
  "IsPressed h = only (Stereo HK_INCREASE_CONVERGENCE) \<Longrightarrow>
     GFX_STEREO_CONVERGENCE (stereo_convergence_hotkeys h s)
     = min (GFX_STEREO_CONVERGENCE s + 5) 500"
  by (simp add: stereo_convergence_hotkeys_def guard_def IsHotkey_def only_def Let_def)

text \<open>
  C4 does not hold of the code: decreasing the depth takes the minimum with 0 where the
  convergence takes the maximum. From depth 50, one iteration with decrease-depth held
  stores 0, not 49; the same iteration on the convergence stores 45 from 50.
\<close>

theorem decrease_depth_jumps_to_zero:
  "GFX_STEREO_DEPTH (tick (running_host (only (Stereo HK_DECREASE_DEPTH)))
      (startup\<lparr>GFX_STEREO_DEPTH := 50\<rparr>)) = 0
   \<and> GFX_STEREO_CONVERGENCE (tick (running_host (only (Stereo HK_DECREASE_CONVERGENCE)))
      (startup\<lparr>GFX_STEREO_CONVERGENCE := 50\<rparr>)) = 45"
  by (simp add: run_defs input_defs)

section \<open>Stereoscopy toggles\<close>

text \<open>
  Firing the action of the active member turns the group off for side-by-side, anaglyph
  (which also clears the shader it had set) and 3D Vision.
\<close>

lemma toggle_active_member_off:
  "GFX_STEREO_MODE s = SBS \<Longrightarrow> IsPressed h = only (Stereo HK_TOGGLE_STEREO_SBS) \<Longrightarrow>
     stereoscopy h s = s\<lparr>GFX_STEREO_MODE := Off\<rparr>"
  "GFX_STEREO_MODE s = Anaglyph \<Longrightarrow> IsPressed h = only (Stereo HK_TOGGLE_STEREO_ANAGLYPH) \<Longrightarrow>
     stereoscopy h s = s\<lparr>GFX_STEREO_MODE := Off, GFX_ENHANCE_POST_SHADER := []\<rparr>"
  "GFX_STEREO_MODE s = Nvidia3DVision \<Longrightarrow> IsPressed h = only (Stereo HK_TOGGLE_STEREO_3DVISION) \<Longrightarrow>
     stereoscopy h s = s\<lparr>GFX_STEREO_MODE := Off\<rparr>"
  by (simp_all add: stereoscopy_def toggle_stereo_sbs_tab_def toggle_stereo_anaglyph_def
      toggle_stereo_3dvision_def guard_def IsHotkey_def only_def)

text \<open>
  C5 does not hold of the code for the top-and-bottom member: the shared check of line 353
  compares the mode with side-by-side only. With top-and-bottom active, firing the
  top-and-bottom action leaves the mode at top-and-bottom instead of off.
\<close>

theorem toggle_tab_stays_tab:
  "GFX_STEREO_MODE (startup\<lparr>GFX_STEREO_MODE := TAB\<rparr>) = TAB
   \<and> GFX_STEREO_MODE (tick (running_host (only (Stereo HK_TOGGLE_STEREO_TAB)))
        (startup\<lparr>GFX_STEREO_MODE := TAB\<rparr>)) = TAB"
  by (simp add: run_defs input_defs)

section \<open>Debugging hotkeys\<close>

text \<open>
  C8 does not hold of the code: with debugging enabled and only the set-pc hotkey pressed,
  the one command the iteration emits is Skip, the command of the skip hotkey; SetPC is
  not emitted.
\<close>

theorem set_pc_emits_skip:
  "commands (tick ((running_host (only (Debugging HK_SET_PC)))\<lparr>bEnableDebugging := True\<rparr>)
      startup) = [Debug Skip]
   \<and> commands (tick ((running_host (only (Debugging HK_SKIP)))\<lparr>bEnableDebugging := True\<rparr>)
      startup) = [Debug Skip]"
  by (simp add: run_defs commands_def input_defs)

end
